theory Spec2Isabelle
  imports Main "HOL-Library.Sublist"
begin

chapter \<open>torto: resolution of variables, merging of target files, running of commands\<close>

text \<open>
  The functions of \<open>torto/torto.go\<close> as functions of HOL. What the functions take from
  the world around them (the files, the decoding of a document, the path of the
  executable, the child processes, the order in which a map is visited) is a parameter.
\<close>

section \<open>Strings: the functions of Go's \<open>strings\<close> package that torto uses\<close>

text \<open>
  A Go string is a sequence of bytes; \<^typ>\<open>string\<close> is a list of \<^typ>\<open>char\<close> (bytes).
  \<open>strings.Contains(s, sub)\<close> holds when \<open>sub\<close> occurs in \<open>s\<close> as a contiguous run of
  bytes.
\<close>

fun Contains :: "string \<Rightarrow> string \<Rightarrow> bool" where
  "Contains [] sub = (sub = [])"
| "Contains (c # cs) sub = (prefix sub (c # cs) \<or> Contains cs sub)"

text \<open>
  \<open>strings.ReplaceAll(s, old, new)\<close> replaces the non-overlapping occurrences of \<open>old\<close>,
  found from left to right. With an empty \<open>old\<close> Go inserts \<open>new\<close> at the start and after
  every UTF-8 sequence (here: after every byte, which is the same on ASCII text); torto
  only calls it with \<open>old = "$" + k\<close>, which is never empty.
\<close>

function ReplaceAll :: "string \<Rightarrow> string \<Rightarrow> string \<Rightarrow> string" where
  "ReplaceAll s old new =
     (if old = [] then new @ concat (map (\<lambda>c. c # new) s)
      else if s = [] then []
      else if prefix old s then new @ ReplaceAll (drop (length old) s) old new
      else hd s # ReplaceAll (tl s) old new)"
  by pat_completeness auto
termination
  by (relation "measure (\<lambda>(s, old, new). length s)") auto

declare ReplaceAll.simps [simp del]

text \<open>\<open>strings.Join(elems, sep)\<close>.\<close>

fun Join :: "string list \<Rightarrow> string \<Rightarrow> string" where
  "Join [] sep = []"
| "Join [x] sep = x"
| "Join (x # y # ys) sep = x @ sep @ Join (y # ys) sep"

section \<open>The variable resolver\<close>

text \<open>
  \<open>withResolvedArgs\<close> ranges over the map \<open>c.argReplacements\<close>. Go leaves the order in
  which a \<open>range\<close> visits the entries of a map unspecified, and the result depends on it,
  so the order is a parameter: \<open>ks\<close> lists the keys in the order of the visit, the same
  order at every range of a run. A key of \<open>ks\<close> that the map does not bind is no entry
  and is passed over.

  The function calls itself on the value of every key whose token occurs in the text, and
  nothing bounds the depth of these calls. The model counts the depth: \<open>withResolvedArgs n\<close>
  is the run with call depth at most \<open>n\<close>, and \<open>None\<close> says that the depth did not
  suffice. A run that returns \<open>None\<close> for every \<open>n\<close> is a Go run that never returns.
\<close>

fun resolve_range ::
  "(string \<Rightarrow> string option) \<Rightarrow> (string \<rightharpoonup> string) \<Rightarrow> string list \<Rightarrow> string \<Rightarrow> string option"
where
  "resolve_range rec m [] argValue = Some argValue"
| "resolve_range rec m (k # ks) argValue =
     (case m k of
        None \<Rightarrow> resolve_range rec m ks argValue
      | Some v \<Rightarrow>
          if Contains argValue (CHR ''$'' # k)
          then (case rec v of
                  None \<Rightarrow> None
                | Some resolvedArgValue \<Rightarrow>
                    resolve_range rec m ks (ReplaceAll argValue (CHR ''$'' # k) resolvedArgValue))
          else resolve_range rec m ks argValue)"

primrec withResolvedArgs ::
  "nat \<Rightarrow> string list \<Rightarrow> (string \<rightharpoonup> string) \<Rightarrow> string \<Rightarrow> string option"
where
  "withResolvedArgs 0 ks m argValue = None"
| "withResolvedArgs (Suc n) ks m argValue =
     resolve_range (\<lambda>v. withResolvedArgs n ks m v) m ks argValue"


section \<open>Errors, panics and the data of torto\<close>

text \<open>
  A Go \<open>error\<close> is either made by \<open>errors.New\<close> with a message, or comes from outside
  torto (\<open>os\<close>, \<open>yaml\<close>, \<open>os/exec\<close>) and is then only named. A function either returns
  its values, returns a non-nil error, or the Go runtime panics.
\<close>

datatype error = errors_New string | foreign string

datatype 'a res = Returns 'a | Fails error | Panics string

definition bind_res :: "'a res \<Rightarrow> ('a \<Rightarrow> 'b res) \<Rightarrow> 'b res" where
  "bind_res x f = (case x of Returns a \<Rightarrow> f a | Fails e \<Rightarrow> Fails e | Panics p \<Rightarrow> Panics p)"

text \<open>
  \<open>type Targets struct\<close>. A Go map is \<open>nil\<close> until it is made: \<open>None\<close> is the \<open>nil\<close>
  map, which reads as an empty map and panics on assignment. \<open>yaml.Unmarshal\<close> leaves the
  field of a key that the document does not have at its zero value, \<open>nil\<close>.
\<close>

record Targets =
  Targets :: "(string \<rightharpoonup> string list) option"
  Vars :: "(string \<rightharpoonup> string) option"

text \<open>
  \<open>type Config struct\<close>. \<open>argReplacements\<close> is never \<open>nil\<close>: \<open>CreateCommand\<close> makes it
  and \<open>ArgsValidator\<close> stores a made map in it.
\<close>

record Config =
  target :: string
  argReplacements :: "string \<rightharpoonup> string"
  debug :: bool
  force :: bool
  targetsFilePath :: string
  defaultTargetsFilePath :: string
  thisTarget :: "string list"

text \<open>The configuration that \<open>CreateCommand\<close> makes; the flags \<open>-f\<close> and \<open>-d\<close> set \<open>force\<close> and \<open>debug\<close>.\<close>

definition CreateCommand_config :: Config where
  "CreateCommand_config =
     \<lparr>target = [], argReplacements = Map.empty, debug = False, force = False,
      targetsFilePath = ''torto.yml'', defaultTargetsFilePath = ''~/torto.yml'', thisTarget = []\<rparr>"

section \<open>Loading and merging the target files\<close>

text \<open>
  \<open>getTargetsFile\<close>: \<open>os_Open\<close> stands for opening and reading the file (the bytes read, or
  the error of \<open>os.Open\<close>), \<open>yaml_Unmarshal\<close> for decoding them. Go returns the pair
  \<open>(nil, err)\<close> or \<open>(&targets, nil)\<close>; the sum has \<open>Inl err\<close> for the first.
\<close>

definition getTargetsFile ::
  "(string \<Rightarrow> error + string) \<Rightarrow> (string \<Rightarrow> error + Targets) \<Rightarrow> string \<Rightarrow> error + Targets"
where
  "getTargetsFile os_Open yaml_Unmarshal filename =
     (case os_Open filename of
        Inl err \<Rightarrow> Inl err
      | Inr byteValue \<Rightarrow>
          (case yaml_Unmarshal byteValue of
             Inl err \<Rightarrow> Inl err
           | Inr targets \<Rightarrow> Inr targets))"

definition emptyTargets :: Targets where
  "emptyTargets = \<lparr>Targets = Some Map.empty, Vars = Some Map.empty\<rparr>"

text \<open>
  \<open>for k, v := range src { dst[k] = v }\<close>. Ranging over a \<open>nil\<close> or empty map runs the
  body not at all. Otherwise every entry of \<open>src\<close> is stored in \<open>dst\<close>, whatever the order
  of the visit, and the first store panics when \<open>dst\<close> is \<open>nil\<close>.
\<close>

definition assign_range :: "('k \<rightharpoonup> 'v) option \<Rightarrow> ('k \<rightharpoonup> 'v) option \<Rightarrow> ('k \<rightharpoonup> 'v) option res" where
  "assign_range dst src =
     (case src of
        None \<Rightarrow> Returns dst
      | Some s \<Rightarrow>
          if dom s = {} then Returns dst
          else (case dst of
                  None \<Rightarrow> Panics ''assignment to entry in nil map''
                | Some d \<Rightarrow> Returns (Some (d ++ s))))"

text \<open>
  \<open>getTargets\<close> returns the merged definitions; it also stores the merged variables in
  \<open>c.argReplacements\<close>, so the model returns the configuration too.
\<close>

definition getTargets ::
  "(string \<Rightarrow> error + string) \<Rightarrow> (string \<Rightarrow> error + Targets) \<Rightarrow> Config \<Rightarrow> (Targets \<times> Config) res"
where
  "getTargets os_Open yaml_Unmarshal c =
     (let default = getTargetsFile os_Open yaml_Unmarshal (defaultTargetsFilePath c);
          thisDir = getTargetsFile os_Open yaml_Unmarshal (targetsFilePath c)
      in case (default, thisDir) of
           (Inl defaultErr, Inl thisDirErr) \<Rightarrow> Fails thisDirErr
         | _ \<Rightarrow>
            (let defaultTargets = (case default of Inl _ \<Rightarrow> emptyTargets | Inr t \<Rightarrow> t);
                 thisDirTargets = (case thisDir of Inl _ \<Rightarrow> emptyTargets | Inr t \<Rightarrow> t)
             in bind_res (assign_range (Targets defaultTargets) (Targets thisDirTargets)) (\<lambda>ts.
                bind_res (assign_range (Vars defaultTargets) (Vars thisDirTargets)) (\<lambda>vs.
                  Returns (\<lparr>Targets = ts, Vars = vs\<rparr>,
                           c\<lparr>argReplacements :=
                               argReplacements c ++ (case vs of None \<Rightarrow> Map.empty | Some v \<Rightarrow> v)\<rparr>)))))"

section \<open>Parsing the arguments\<close>

text \<open>
  The regular expression \<open>^([a-zA-Z0-9]+)=(.+)$\<close>, matched by \<open>FindStringSubmatch\<close>. In
  Go's syntax \<open>.\<close> matches every character but the line feed, and \<open>^\<close> and \<open>$\<close> match at
  the two ends of the text only; a byte that is no UTF-8 is matched by \<open>.\<close> as well. The
  first group is made of characters that are not \<open>=\<close>, so it is the longest alphanumeric
  prefix. The result is \<open>nil\<close> when the text does not match, and otherwise the text and
  the two groups.
\<close>

definition alnum :: "char \<Rightarrow> bool" where
  "alnum c = (c \<in> set ''abcdefghijklmnopqrstuvwxyzABCDEFGHIJKLMNOPQRSTUVWXYZ0123456789'')"

definition FindStringSubmatch :: "string \<Rightarrow> string list" where
  "FindStringSubmatch arg =
     (let name = takeWhile alnum arg in
      case dropWhile alnum arg of
        [] \<Rightarrow> []
      | c # val \<Rightarrow>
          if name \<noteq> [] \<and> c = CHR ''='' \<and> val \<noteq> [] \<and> CHR 0x0A \<notin> set val
          then [arg, name, val] else [])"

text \<open>Indexing a slice: out of range, Go panics.\<close>

definition index :: "'a list \<Rightarrow> nat \<Rightarrow> 'a res" where
  "index xs i = (if i < length xs then Returns (xs ! i) else Panics ''index out of range'')"

fun range_programArgs ::
  "string list \<Rightarrow> (string \<rightharpoonup> string) \<Rightarrow> string list \<Rightarrow> ((string \<rightharpoonup> string) \<times> string list) res"
where
  "range_programArgs [] runArgs nonValueReplacementArgs = Returns (runArgs, nonValueReplacementArgs)"
| "range_programArgs (arg # args) runArgs nonValueReplacementArgs =
     (let matches = FindStringSubmatch arg in
      if length matches > 0
      then bind_res (index matches 2) (\<lambda>m2.
           bind_res (if m2 \<noteq> [] then Returns m2 else index matches 3) (\<lambda>val.
           bind_res (index matches 1) (\<lambda>m1.
             range_programArgs args (runArgs(m1 \<mapsto> val)) nonValueReplacementArgs)))
      else range_programArgs args runArgs (nonValueReplacementArgs @ [arg]))"

text \<open>\<open>os_Executable\<close> is what \<open>os.Executable()\<close> returns: the path, or an error.\<close>

definition getTargetNameAndRunArgs ::
  "error + string \<Rightarrow> string list \<Rightarrow> (string \<times> (string \<rightharpoonup> string)) res"
where
  "getTargetNameAndRunArgs os_Executable programArgs =
     bind_res (range_programArgs programArgs Map.empty []) (\<lambda>(runArgs, nonValueReplacementArgs).
       case nonValueReplacementArgs of
         [] \<Rightarrow> Fails (errors_New ''target missing. check usage with -h'')
       | targetName # rest \<Rightarrow>
           (let cmdVar = Join rest '' '';
                runArgs = runArgs(''CMD'' \<mapsto> cmdVar)
            in case os_Executable of
                 Inl err \<Rightarrow> Fails err
               | Inr path \<Rightarrow> Returns (targetName, runArgs(''BIN'' \<mapsto> path))))"

section \<open>Running the commands\<close>

text \<open>
  What a run of \<open>Execute\<close> does, in order: \<open>Dumped\<close> is the debug print of the
  configuration, \<open>Shown command\<close> the debug print of the command line instead of its run,
  \<open>Ran command stderr err\<close> one \<open>cmd.Run()\<close> of the shell on \<open>command\<close> with what it
  wrote to standard error and the error it returned, \<open>Printed\<close> and \<open>PrintedErr\<close> the
  reports on standard output.
\<close>

datatype event =
    Dumped
  | Shown string
  | Ran string string "error option"
  | Printed string
  | PrintedErr error

text \<open>
  The loop over \<open>c.thisTarget\<close>. \<open>run w executor args\<close> is the child process started in
  the world \<open>w\<close>: the world after it, its standard error and its error. The result is
  \<open>None\<close> when the resolution of a command does not return within depth \<open>n\<close>, and otherwise
  the error that \<open>Execute\<close> returns (\<open>None\<close> is \<open>nil\<close>), the events and the world.
\<close>

fun Execute_range ::
  "nat \<Rightarrow> string list \<Rightarrow> ('w \<Rightarrow> string \<Rightarrow> string list \<Rightarrow> 'w \<times> string \<times> error option) \<Rightarrow> string \<Rightarrow>
   Config \<Rightarrow> string list \<Rightarrow> 'w \<Rightarrow> (error option \<times> event list \<times> 'w) option"
where
  "Execute_range n ks run executor c [] w = Some (None, [], w)"
| "Execute_range n ks run executor c (v # vs) w =
     (case withResolvedArgs n ks (argReplacements c) v of
        None \<Rightarrow> None
      | Some command \<Rightarrow>
          if debug c
          then map_option (\<lambda>(r, tr, w'). (r, Shown command # tr, w'))
                 (Execute_range n ks run executor c vs w)
          else
            (case run w executor [''-c'', command] of
               (w1, stderr, None) \<Rightarrow>
                 map_option (\<lambda>(r, tr, w'). (r, Ran command stderr None # tr, w'))
                   (Execute_range n ks run executor c vs w1)
             | (w1, stderr, Some err) \<Rightarrow>
                 (let msg = target c @ '': error executing '' @ [CHR 0x27] @ command @ [CHR 0x27]
                              @ '': '' @ stderr;
                      report = Printed (if stderr \<noteq> [] \<and> last stderr = CHR 0x0A
                                        then msg else msg @ [CHR 0x0A])
                  in if \<not> force c
                     then Some (Some err, [Ran command stderr (Some err), report], w1)
                     else map_option
                            (\<lambda>(r, tr, w').
                               (r, [Ran command stderr (Some err), report, PrintedErr err] @ tr, w'))
                            (Execute_range n ks run executor c vs w1))))"

definition Execute ::
  "nat \<Rightarrow> string list \<Rightarrow> string \<Rightarrow> ('w \<Rightarrow> string \<Rightarrow> string list \<Rightarrow> 'w \<times> string \<times> error option) \<Rightarrow>
   Config \<Rightarrow> 'w \<Rightarrow> (error option \<times> event list \<times> 'w) option"
where
  "Execute n ks GOOS run c w =
     (let executor = (if GOOS = ''windows'' then ''powershell'' else ''sh'')
      in map_option (\<lambda>(r, tr, w'). (r, (if debug c then [Dumped] else []) @ tr, w'))
           (Execute_range n ks run executor c (thisTarget c) w))"

section \<open>Validating the arguments\<close>

text \<open>
  The function that \<open>ArgsValidator\<close> returns, applied to \<open>args\<close>. It stores its results in
  the configuration; the model returns the configuration after it, or the error. \<open>None\<close>
  says that the resolution of the target name does not return within depth \<open>n\<close>.
\<close>

definition ArgsValidator ::
  "nat \<Rightarrow> string list \<Rightarrow> error + string \<Rightarrow> (string \<Rightarrow> error + string) \<Rightarrow> (string \<Rightarrow> error + Targets) \<Rightarrow>
   Config \<Rightarrow> string list \<Rightarrow> Config res option"
where
  "ArgsValidator n ks os_Executable os_Open yaml_Unmarshal c args =
     (case getTargetNameAndRunArgs os_Executable args of
        Fails err \<Rightarrow> Some (Fails err)
      | Panics p \<Rightarrow> Some (Panics p)
      | Returns (targetName, runArgs) \<Rightarrow>
          (let c1 = c\<lparr>argReplacements := runArgs\<rparr> in
           case withResolvedArgs n ks (argReplacements c1) targetName of
             None \<Rightarrow> None
           | Some resolved \<Rightarrow>
               (let c2 = c1\<lparr>target := resolved\<rparr> in
                Some (bind_res (getTargets os_Open yaml_Unmarshal c2) (\<lambda>(targets, c3).
                  case (case Targets targets of None \<Rightarrow> None | Some ts \<Rightarrow> ts targetName) of
                    None \<Rightarrow> Fails (errors_New (''target '' @ targetName @ '' does not exist''))
                  | Some commands \<Rightarrow> Returns (c3\<lparr>thisTarget := commands\<rparr>))))))"

section \<open>The words of the specification\<close>




text \<open>
  An order of visit in which every variable comes before the variables it refers to: the
  value of a key contains neither its own token nor the token of a key visited before it.
\<close>



text \<open>
  The pattern \<open>NAME=VALUE\<close> in the words of the specification: \<open>NAME\<close> is one or more
  alphanumeric characters and \<open>VALUE\<close> is not empty. \<open>NAME_VALUE_line\<close> asks moreover that
  \<open>VALUE\<close> has no line feed.
\<close>

definition NAME_VALUE :: "string \<Rightarrow> string \<Rightarrow> string \<Rightarrow> bool" where
  "NAME_VALUE arg name val =
     (arg = name @ ''='' @ val \<and> name \<noteq> [] \<and> list_all alnum name \<and> val \<noteq> [])"

definition NAME_VALUE_line :: "string \<Rightarrow> string \<Rightarrow> string \<Rightarrow> bool" where
  "NAME_VALUE_line arg name val = (NAME_VALUE arg name val \<and> CHR 0x0A \<notin> set val)"

text \<open>
  The two parts into which the arguments are split: the assignments, as pairs of name and
  value in the order of the arguments, and the other arguments.
\<close>

definition entries :: "string list \<Rightarrow> (string \<times> string) list" where
  "entries args =
     map (\<lambda>ms. (ms ! 1, ms ! 2)) (filter (\<lambda>ms. ms \<noteq> []) (map FindStringSubmatch args))"

definition residual :: "string list \<Rightarrow> string list" where
  "residual args = filter (\<lambda>arg. FindStringSubmatch arg = []) args"

text \<open>The entries of a Go map: the \<open>nil\<close> map reads as the empty map.\<close>

definition contents :: "('k \<rightharpoonup> 'v) option \<Rightarrow> ('k \<rightharpoonup> 'v)" where
  "contents m = (case m of None \<Rightarrow> Map.empty | Some s \<Rightarrow> s)"

text \<open>
  What the events of a run say: \<open>ran\<close> lists the commands that were run, each with its
  error; \<open>reached\<close> lists the commands that the loop got to, run or shown.
  \<open>stops_at_first_failure runs r\<close>: a run that failed is the last run and its error is the
  result \<open>r\<close>, and the result is \<open>nil\<close> when no run failed.
\<close>

fun ran :: "event list \<Rightarrow> (string \<times> error option) list" where
  "ran [] = []"
| "ran (Ran command stderr err # tr) = (command, err) # ran tr"
| "ran (_ # tr) = ran tr"

fun reached :: "event list \<Rightarrow> string list" where
  "reached [] = []"
| "reached (Ran command stderr err # tr) = command # reached tr"
| "reached (Shown command # tr) = command # reached tr"
| "reached (_ # tr) = reached tr"

fun stops_at_first_failure :: "(string \<times> error option) list \<Rightarrow> error option \<Rightarrow> bool" where
  "stops_at_first_failure [] r = (r = None)"
| "stops_at_first_failure ((command, None) # runs) r = stops_at_first_failure runs r"
| "stops_at_first_failure ((command, Some err) # runs) r = (runs = [] \<and> r = Some err)"

section \<open>Examples of the world around torto\<close>

text \<open>
  A file system with both files, or with the project file only; the path of the global
  file is opened as it is written in the configuration.
\<close>

definition two_files :: "string \<Rightarrow> string \<Rightarrow> string \<Rightarrow> error + string" where
  "two_files global local path =
     (if path = ''~/torto.yml'' then Inr global
      else if path = ''torto.yml'' then Inr local
      else Inl (foreign ''open: no such file or directory''))"

definition local_file :: "string \<Rightarrow> string \<Rightarrow> error + string" where
  "local_file local path =
     (if path = ''torto.yml'' then Inr local
      else Inl (foreign ''open: no such file or directory''))"

text \<open>What \<open>yaml.Unmarshal\<close> decodes from the documents of the examples.\<close>

definition decoded :: "string \<Rightarrow> error + Targets" where
  "decoded bytes =
     (if bytes = ''vars: {GREETING: hi}''
      then Inr \<lparr>Targets = None, Vars = Some [''GREETING'' \<mapsto> ''hi'']\<rparr>
      else if bytes = ''targets: {hello: [echo $GREETING $NAME]}''
      then Inr \<lparr>Targets = Some [''hello'' \<mapsto> [''echo $GREETING $NAME'']], Vars = None\<rparr>
      else if bytes = ''{targets: {build: [echo a]}, vars: {X: 1}}''
      then Inr \<lparr>Targets = Some [''build'' \<mapsto> [''echo a'']], Vars = Some [''X'' \<mapsto> ''1'']\<rparr>
      else if bytes = ''{targets: {build: [echo $X]}, vars: {X: 2}}''
      then Inr \<lparr>Targets = Some [''build'' \<mapsto> [''echo $X'']], Vars = Some [''X'' \<mapsto> ''2'']\<rparr>
      else if bytes = ''targets: {build: [echo a]}''
      then Inr \<lparr>Targets = Some [''build'' \<mapsto> [''echo a'']], Vars = None\<rparr>
      else if bytes = ''vars: {X: 2}''
      then Inr \<lparr>Targets = None, Vars = Some [''X'' \<mapsto> ''2'']\<rparr>
      else Inl (foreign ''yaml: unmarshal error''))"

text \<open>A shell in which \<open>false\<close> fails and every other command succeeds; the world counts the runs.\<close>

definition failing_false :: "nat \<Rightarrow> string \<Rightarrow> string list \<Rightarrow> nat \<times> string \<times> error option" where
  "failing_false w executor args =
     (if args = [''-c'', ''false''] then (Suc w, [], Some (foreign ''exit status 1''))
      else (Suc w, [], None))"

definition two_commands :: Config where
  "two_commands = CreateCommand_config\<lparr>target := ''check'', thisTarget := [''false'', ''echo ok'']\<rparr>"

section \<open>Resolution\<close>

lemma resolve_range_no_token:
  "\<forall>k \<in> dom m. \<not> Contains s (CHR ''$'' # k) \<Longrightarrow> resolve_range rec m ks s = Some s"
  by (induction ks) (auto split: option.splits)

text \<open>
  C7. A string in which the token \<open>$KEY\<close> occurs for no key of the variable map is
  returned as it is: resolution is the identity when nothing matches.
\<close>

theorem resolve_identity_without_tokens:
  "\<forall>k \<in> dom m. \<not> Contains s (CHR ''$'' # k) \<Longrightarrow> withResolvedArgs (Suc n) ks m s = Some s"
  by (simp add: resolve_range_no_token)

theorem resolve_identity_without_tokens_witness:
  "withResolvedArgs (Suc 0) [''NAME''] [''NAME'' \<mapsto> ''world''] ''echo $HOME'' = Some ''echo $HOME''"
  using resolve_identity_without_tokens [of "[''NAME'' \<mapsto> ''world'']" "''echo $HOME''" 0 "[''NAME'']"]
  by simp

text \<open>A resolution that returns within a depth returns the same within every greater depth.\<close>

lemma resolve_range_mono:
  "\<forall>v r. rec v = Some r \<longrightarrow> rec' v = Some r \<Longrightarrow> resolve_range rec m ks s = Some r \<Longrightarrow>
   resolve_range rec' m ks s = Some r"
  by (induction ks arbitrary: s) (auto split: option.splits if_splits)

lemma withResolvedArgs_Suc:
  "withResolvedArgs n ks m s = Some r \<Longrightarrow> withResolvedArgs (Suc n) ks m s = Some r"
proof (induction n arbitrary: s r)
  case 0
  then show ?case by simp
next
  case (Suc n)
  have "resolve_range (withResolvedArgs n ks m) m ks s = Some r"
    using Suc.prems by simp
  then have "resolve_range (withResolvedArgs (Suc n) ks m) m ks s = Some r"
    using Suc.IH resolve_range_mono [of "withResolvedArgs n ks m" "withResolvedArgs (Suc n) ks m"]
    by blast
  then show ?case
    by (simp del: withResolvedArgs.simps add: withResolvedArgs.simps(2) [of "Suc n"])
qed

lemma withResolvedArgs_mono:
  "n \<le> n' \<Longrightarrow> withResolvedArgs n ks m s = Some r \<Longrightarrow> withResolvedArgs n' ks m s = Some r"
  by (induction rule: dec_induct) (simp_all add: withResolvedArgs_Suc del: withResolvedArgs.simps)










section \<open>Parsing\<close>

lemma not_alnum_equals: "\<not> alnum CHR ''=''"
  by (simp add: alnum_def)

lemma FindStringSubmatch_cases:
  "FindStringSubmatch arg = [] \<or>
   (\<exists>name val. FindStringSubmatch arg = [arg, name, val] \<and> val \<noteq> [])"
  by (auto simp: FindStringSubmatch_def Let_def split: list.splits)

lemma FindStringSubmatch_match:
  "FindStringSubmatch arg = [arg, name, val] \<longleftrightarrow> NAME_VALUE_line arg name val"
proof
  assume "FindStringSubmatch arg = [arg, name, val]"
  then obtain c where d: "dropWhile alnum arg = c # val" "name = takeWhile alnum arg"
      "name \<noteq> []" "c = CHR ''=''" "val \<noteq> []" "CHR 0x0A \<notin> set val"
    by (auto simp: FindStringSubmatch_def Let_def split: list.splits if_splits)
  have "arg = takeWhile alnum arg @ dropWhile alnum arg"
    by simp
  then have "arg = name @ ''='' @ val"
    using d by simp
  moreover have "list_all alnum name"
    using d(2) by (auto simp: list_all_iff dest: set_takeWhileD)
  ultimately show "NAME_VALUE_line arg name val"
    using d by (simp add: NAME_VALUE_line_def NAME_VALUE_def)
next
  assume "NAME_VALUE_line arg name val"
  then have n: "arg = name @ CHR ''='' # val" "name \<noteq> []" "\<forall>c \<in> set name. alnum c"
      "val \<noteq> []" "CHR 0x0A \<notin> set val"
    by (auto simp: NAME_VALUE_line_def NAME_VALUE_def list_all_iff)
  have "takeWhile alnum arg = name"
    using n(1,3) not_alnum_equals by (simp add: takeWhile_append2)
  moreover have "dropWhile alnum arg = CHR ''='' # val"
    using n(1,3) not_alnum_equals by (simp add: dropWhile_append2)
  ultimately show "FindStringSubmatch arg = [arg, name, val]"
    using n by (simp add: FindStringSubmatch_def)
qed

lemma FindStringSubmatch_nil:
  "FindStringSubmatch arg = [] \<longleftrightarrow> \<not> (\<exists>name val. NAME_VALUE_line arg name val)"
proof -
  have "FindStringSubmatch arg \<noteq> [] \<longleftrightarrow> (\<exists>name val. FindStringSubmatch arg = [arg, name, val])"
    using FindStringSubmatch_cases [of arg] by auto
  then show ?thesis
    by (auto simp: FindStringSubmatch_match)
qed

text \<open>The loop over the arguments: later assignments overwrite earlier ones.\<close>

lemma range_programArgs_eq:
  "range_programArgs args runArgs nv =
     Returns (runArgs ++ map_of (rev (entries args)), nv @ residual args)"
proof (induction args arbitrary: runArgs nv)
  case Nil
  show ?case by (simp add: entries_def residual_def)
next
  case (Cons arg args)
  consider "FindStringSubmatch arg = []"
    | name val where "FindStringSubmatch arg = [arg, name, val]" "val \<noteq> []"
    using FindStringSubmatch_cases [of arg] by blast
  then show ?case
  proof cases
    case 1
    then show ?thesis
      using Cons.IH by (simp add: entries_def residual_def)
  next
    case 2
    have step: "range_programArgs (arg # args) runArgs nv =
                range_programArgs args (runArgs(name \<mapsto> val)) nv"
      using 2 by (simp add: index_def bind_res_def)
    have e: "entries (arg # args) = (name, val) # entries args"
      using 2 by (simp add: entries_def)
    have r: "residual (arg # args) = residual args"
      using 2 by (simp add: residual_def)
    show ?thesis
      unfolding step e r Cons.IH by simp
  qed
qed

text \<open>
  C10. When an argument matches, the result of the match has three elements and the
  second group is not empty, so the branch that reads \<open>matches[3]\<close> is not taken: parsing
  never panics.
\<close>

theorem parse_never_out_of_range:
  "(length (FindStringSubmatch arg) > 0 \<longrightarrow>
      length (FindStringSubmatch arg) = 3 \<and> FindStringSubmatch arg ! 2 \<noteq> [])
   \<and> getTargetNameAndRunArgs os_Executable programArgs \<noteq> Panics p"
proof
  show "length (FindStringSubmatch arg) > 0 \<longrightarrow>
      length (FindStringSubmatch arg) = 3 \<and> FindStringSubmatch arg ! 2 \<noteq> []"
    using FindStringSubmatch_cases [of arg] by auto
next
  show "getTargetNameAndRunArgs os_Executable programArgs \<noteq> Panics p"
    by (simp add: getTargetNameAndRunArgs_def range_programArgs_eq bind_res_def Let_def
          split: list.splits sum.splits)
qed

theorem parse_never_out_of_range_witness:
  "length (FindStringSubmatch ''VAR1=test'') = 3 \<and> FindStringSubmatch ''VAR1=test'' ! 2 = ''test''
   \<and> getTargetNameAndRunArgs (Inr ''/usr/bin/torto'') [''hello_world'', ''VAR1=test'']
       \<noteq> Panics ''index out of range''"
  using parse_never_out_of_range
    [of "''VAR1=test''" "Inr ''/usr/bin/torto''" "[''hello_world'', ''VAR1=test'']" "''index out of range''"]
  by (simp add: FindStringSubmatch_def alnum_def)

text \<open>
  C5, as it holds. An argument is an assignment exactly when it is \<open>NAME=VALUE\<close> with
  \<open>NAME\<close> one or more alphanumeric characters and \<open>VALUE\<close> not empty and without a line
  feed. With no other argument the parse fails with the error of the missing target.
  Otherwise, when the path of the executable is known, the target name is the first of
  the other arguments, \<open>CMD\<close> is bound to the rest of them joined by single spaces, \<open>BIN\<close>
  to the path and every other name to the value of its last assignment; when the path is
  not known, the parse fails with the error of \<open>os.Executable\<close>.
\<close>

theorem getTargetNameAndRunArgs_partition:
  "(FindStringSubmatch arg = [arg, name, val] \<longleftrightarrow> NAME_VALUE_line arg name val)
   \<and> (FindStringSubmatch arg = [] \<longleftrightarrow> \<not> (\<exists>name val. NAME_VALUE_line arg name val))
   \<and> getTargetNameAndRunArgs os_Executable programArgs =
       (case residual programArgs of
          [] \<Rightarrow> Fails (errors_New ''target missing. check usage with -h'')
        | targetName # rest \<Rightarrow>
            (case os_Executable of
               Inl err \<Rightarrow> Fails err
             | Inr path \<Rightarrow>
                 Returns (targetName,
                   (map_of (rev (entries programArgs)))
                     (''CMD'' \<mapsto> Join rest '' '', ''BIN'' \<mapsto> path))))"
  by (simp add: FindStringSubmatch_match FindStringSubmatch_nil getTargetNameAndRunArgs_def
        range_programArgs_eq bind_res_def Let_def split: list.splits sum.splits)

theorem getTargetNameAndRunArgs_partition_witness:
  "getTargetNameAndRunArgs (Inr ''/usr/bin/torto'') [''X=3'', ''build'', ''--'', ''X=4'', ''fast'']
   = Returns (''build'', [''X'' \<mapsto> ''4'', ''CMD'' \<mapsto> ''-- fast'', ''BIN'' \<mapsto> ''/usr/bin/torto''])"
  using getTargetNameAndRunArgs_partition
    [of "''X=3''" "''X''" "''3''" "Inr ''/usr/bin/torto''" "[''X=3'', ''build'', ''--'', ''X=4'', ''fast'']"]
  by (simp add: entries_def residual_def FindStringSubmatch_def alnum_def)

text \<open>
  C5, as it is stated, fails. The argument \<open>A=b\<close>, line feed, \<open>c\<close> has the form
  \<open>NAME=VALUE\<close> with a value that is not empty, yet it is not taken as an assignment: it
  is the only argument, and the parse returns it as the target name where the claim has
  the error of the missing target.
\<close>

theorem value_with_line_feed_is_no_assignment:
  "NAME_VALUE (''A=b'' @ [CHR 0x0A] @ ''c'') ''A'' (''b'' @ [CHR 0x0A] @ ''c'')
   \<and> getTargetNameAndRunArgs (Inr ''/usr/bin/torto'') [''A=b'' @ [CHR 0x0A] @ ''c'']
     = Returns (''A=b'' @ [CHR 0x0A] @ ''c'', [''CMD'' \<mapsto> [], ''BIN'' \<mapsto> ''/usr/bin/torto''])"
  by (simp add: NAME_VALUE_def getTargetNameAndRunArgs_def FindStringSubmatch_def alnum_def
        bind_res_def)

section \<open>Loading and merging\<close>

lemma assign_range_made:
  "assign_range (Some d) src = Returns (Some (d ++ contents src))"
  by (auto simp: assign_range_def contents_def split: option.splits)

lemma assign_range_from_empty:
  "assign_range dst (Some Map.empty) = Returns dst"
  by (simp add: assign_range_def)

text \<open>What holds of the loading: both loads fail, one load fails, an error is returned.\<close>

lemma getTargets_both_fail:
  "getTargetsFile os_Open yaml_Unmarshal (defaultTargetsFilePath c) = Inl defaultErr \<Longrightarrow>
   getTargetsFile os_Open yaml_Unmarshal (targetsFilePath c) = Inl thisDirErr \<Longrightarrow>
   getTargets os_Open yaml_Unmarshal c = Fails thisDirErr"
  by (simp add: getTargets_def)

lemma getTargets_only_local:
  "getTargetsFile os_Open yaml_Unmarshal (defaultTargetsFilePath c) = Inl defaultErr \<Longrightarrow>
   getTargetsFile os_Open yaml_Unmarshal (targetsFilePath c) = Inr thisDirTargets \<Longrightarrow>
   getTargets os_Open yaml_Unmarshal c =
     Returns (\<lparr>Targets = Some (contents (Targets thisDirTargets)),
               Vars = Some (contents (Vars thisDirTargets))\<rparr>,
              c\<lparr>argReplacements := argReplacements c ++ contents (Vars thisDirTargets)\<rparr>)"
  by (simp add: getTargets_def emptyTargets_def assign_range_made bind_res_def)

lemma getTargets_only_global:
  "getTargetsFile os_Open yaml_Unmarshal (defaultTargetsFilePath c) = Inr defaultTargets \<Longrightarrow>
   getTargetsFile os_Open yaml_Unmarshal (targetsFilePath c) = Inl thisDirErr \<Longrightarrow>
   getTargets os_Open yaml_Unmarshal c =
     Returns (defaultTargets,
              c\<lparr>argReplacements := argReplacements c ++ contents (Vars defaultTargets)\<rparr>)"
  by (simp add: getTargets_def emptyTargets_def assign_range_from_empty bind_res_def contents_def)

lemma getTargets_Fails_iff:
  "getTargets os_Open yaml_Unmarshal c = Fails err \<longleftrightarrow>
     (\<exists>defaultErr. getTargetsFile os_Open yaml_Unmarshal (defaultTargetsFilePath c) = Inl defaultErr)
     \<and> getTargetsFile os_Open yaml_Unmarshal (targetsFilePath c) = Inl err"
  by (auto simp: getTargets_def bind_res_def assign_range_def Let_def
        split: sum.splits option.splits if_splits)

text \<open>The merge of two loaded files, when the maps of the global file are made.\<close>

lemma getTargets_merge:
  "getTargetsFile os_Open yaml_Unmarshal (defaultTargetsFilePath c) = Inr defaultTargets \<Longrightarrow>
   getTargetsFile os_Open yaml_Unmarshal (targetsFilePath c) = Inr thisDirTargets \<Longrightarrow>
   Targets defaultTargets = Some gt \<Longrightarrow> Vars defaultTargets = Some gv \<Longrightarrow>
   getTargets os_Open yaml_Unmarshal c =
     Returns (\<lparr>Targets = Some (gt ++ contents (Targets thisDirTargets)),
               Vars = Some (gv ++ contents (Vars thisDirTargets))\<rparr>,
              c\<lparr>argReplacements := argReplacements c ++ (gv ++ contents (Vars thisDirTargets))\<rparr>)"
  by (simp add: getTargets_def assign_range_made bind_res_def)

lemma merged_lookup:
  "(gt ++ contents lt) name = (case contents lt name of Some v \<Rightarrow> Some v | None \<Rightarrow> gt name)"
  by (simp add: map_add_def)

text \<open>The definitions that are returned depend on the two paths of the configuration only.\<close>

lemma getTargets_paths_only:
  "targetsFilePath c' = targetsFilePath c \<Longrightarrow>
   defaultTargetsFilePath c' = defaultTargetsFilePath c \<Longrightarrow>
   getTargets os_Open yaml_Unmarshal c' =
     (case getTargets os_Open yaml_Unmarshal c of
        Returns (T, cT) \<Rightarrow>
          Returns (T, c'\<lparr>argReplacements := argReplacements c' ++ contents (Vars T)\<rparr>)
      | Fails err \<Rightarrow> Fails err
      | Panics p \<Rightarrow> Panics p)"
  by (auto simp: getTargets_def bind_res_def contents_def Let_def split: sum.splits res.splits)

text \<open>
  C4, at an input where the code departs from it. The global file holds variables and no
  targets, the project file holds the target \<open>hello\<close>: the targets of the global file are
  the \<open>nil\<close> map, the first store into it panics, and no merged definitions are returned.
  The claim has \<open>hello\<close> bound to the list of the project file.
\<close>

theorem getTargets_nil_targets_panics:
  "getTargets (two_files ''vars: {GREETING: hi}'' ''targets: {hello: [echo $GREETING $NAME]}'')
     decoded CreateCommand_config = Panics ''assignment to entry in nil map''"
  by (simp add: getTargets_def getTargetsFile_def two_files_def decoded_def CreateCommand_config_def
        assign_range_def bind_res_def)

text \<open>
  C3, at an input where the code departs from it. Both files load (the global one holds
  a target and no variables, the project one a variable), and yet loading the
  definitions does not succeed: the store of the variable into the \<open>nil\<close> map panics.
  The claim has loading fail only when both loads fail.
\<close>

theorem getTargets_fails_though_both_load:
  "getTargetsFile (two_files ''targets: {build: [echo a]}'' ''vars: {X: 2}'') decoded ''~/torto.yml''
     = Inr \<lparr>Targets = Some [''build'' \<mapsto> [''echo a'']], Vars = None\<rparr>
   \<and> getTargetsFile (two_files ''targets: {build: [echo a]}'' ''vars: {X: 2}'') decoded ''torto.yml''
     = Inr \<lparr>Targets = None, Vars = Some [''X'' \<mapsto> ''2'']\<rparr>
   \<and> getTargets (two_files ''targets: {build: [echo a]}'' ''vars: {X: 2}'') decoded
     CreateCommand_config = Panics ''assignment to entry in nil map''"
  by (simp add: getTargets_def getTargetsFile_def two_files_def decoded_def CreateCommand_config_def
        assign_range_def bind_res_def)

section \<open>Validation\<close>

text \<open>
  What \<open>ArgsValidator\<close> returns when the arguments parse, the resolution of the target name
  returns and the definitions load.
\<close>

lemma ArgsValidator_eq:
  assumes parse: "getTargetNameAndRunArgs os_Executable args = Returns (targetName, runArgs)"
      and shown: "withResolvedArgs n ks runArgs targetName = Some shown"
      and load: "getTargets os_Open yaml_Unmarshal c = Returns (T, cT)"
  shows "ArgsValidator n ks os_Executable os_Open yaml_Unmarshal c args =
           Some (case contents (Targets T) targetName of
                   None \<Rightarrow> Fails (errors_New (''target '' @ targetName @ '' does not exist''))
                 | Some commands \<Rightarrow>
                     Returns (c\<lparr>argReplacements := runArgs ++ contents (Vars T),
                                target := shown, thisTarget := commands\<rparr>))"
proof -
  let ?c2 = "c\<lparr>argReplacements := runArgs, target := shown\<rparr>"
  have "getTargets os_Open yaml_Unmarshal ?c2 =
          Returns (T, ?c2\<lparr>argReplacements := argReplacements ?c2 ++ contents (Vars T)\<rparr>)"
    using load getTargets_paths_only [of ?c2 c os_Open yaml_Unmarshal] by simp
  then show ?thesis
    using parse shown
    by (simp add: ArgsValidator_def bind_res_def contents_def split: option.splits)
qed

lemma parse_T_build:
  "getTargetNameAndRunArgs (Inr ''/usr/bin/torto'') [''$T'', ''T=build'']
     = Returns (''$T'', [''T'' \<mapsto> ''build'', ''CMD'' \<mapsto> [], ''BIN'' \<mapsto> ''/usr/bin/torto''])"
  by (simp add: getTargetNameAndRunArgs_def FindStringSubmatch_def alnum_def index_def bind_res_def)

lemma shown_T_build:
  "withResolvedArgs 2 [''T'', ''CMD'', ''BIN'']
     [''T'' \<mapsto> ''build'', ''CMD'' \<mapsto> [], ''BIN'' \<mapsto> ''/usr/bin/torto''] ''$T'' = Some ''build''"
  by (simp add: numeral_2_eq_2 ReplaceAll.simps)

lemma load_build:
  "getTargets (local_file ''targets: {build: [echo a]}'') decoded CreateCommand_config
     = Returns (\<lparr>Targets = Some [''build'' \<mapsto> [''echo a'']], Vars = Some Map.empty\<rparr>,
                CreateCommand_config)"
  by (simp add: getTargets_def getTargetsFile_def local_file_def decoded_def CreateCommand_config_def
        emptyTargets_def assign_range_def bind_res_def)

text \<open>
  C8. When the arguments parse, the resolution of the target name returns and the
  definitions load, the commands are those that the merged definitions bind to the
  target name as it was written; the resolved name is kept for the reports only. A name
  that the merged definitions do not bind fails with the error that names it as written.
\<close>

theorem ArgsValidator_lookup_literal:
  assumes "getTargetNameAndRunArgs os_Executable args = Returns (targetName, runArgs)"
      and "withResolvedArgs n ks runArgs targetName = Some shown"
      and "getTargets os_Open yaml_Unmarshal c = Returns (T, cT)"
  shows "(contents (Targets T) targetName = None \<longrightarrow>
            ArgsValidator n ks os_Executable os_Open yaml_Unmarshal c args =
              Some (Fails (errors_New (''target '' @ targetName @ '' does not exist''))))
       \<and> (\<forall>commands. contents (Targets T) targetName = Some commands \<longrightarrow>
            (\<exists>c'. ArgsValidator n ks os_Executable os_Open yaml_Unmarshal c args = Some (Returns c')
                  \<and> thisTarget c' = commands \<and> target c' = shown))"
  using ArgsValidator_eq [OF assms] by simp

theorem ArgsValidator_lookup_literal_witness:
  "ArgsValidator 2 [''T'', ''CMD'', ''BIN''] (Inr ''/usr/bin/torto'')
     (local_file ''targets: {build: [echo a]}'') decoded CreateCommand_config [''$T'', ''T=build'']
   = Some (Fails (errors_New ''target $T does not exist''))"
  using ArgsValidator_lookup_literal [OF parse_T_build shown_T_build load_build]
  by (simp add: contents_def)

text \<open>
  C1, as it holds. After validation the variable map binds a name that the merged files
  define to the value of the files, and every other name to the value that the caller
  gave or that is reserved.
\<close>

theorem file_variables_override:
  assumes "ArgsValidator n ks os_Executable os_Open yaml_Unmarshal c args = Some (Returns c')"
      and "getTargetNameAndRunArgs os_Executable args = Returns (targetName, runArgs)"
      and "getTargets os_Open yaml_Unmarshal c = Returns (T, cT)"
  shows "argReplacements c' name =
           (case contents (Vars T) name of
              Some fileValue \<Rightarrow> Some fileValue
            | None \<Rightarrow> runArgs name)"
proof -
  from assms(1,2) obtain shown where "withResolvedArgs n ks runArgs targetName = Some shown"
    by (auto simp: ArgsValidator_def split: option.splits)
  with assms show ?thesis
    using ArgsValidator_eq
      [of os_Executable args targetName runArgs n ks shown os_Open yaml_Unmarshal c T cT]
    by (auto simp: map_add_def split: option.splits)
qed

lemma parse_build_X3:
  "getTargetNameAndRunArgs (Inr ''/usr/bin/torto'') [''build'', ''X=3'']
     = Returns (''build'', [''X'' \<mapsto> ''3'', ''CMD'' \<mapsto> [], ''BIN'' \<mapsto> ''/usr/bin/torto''])"
  by (simp add: getTargetNameAndRunArgs_def FindStringSubmatch_def alnum_def index_def bind_res_def)

lemma load_X1_X2:
  "getTargets (two_files ''{targets: {build: [echo a]}, vars: {X: 1}}''
                 ''{targets: {build: [echo $X]}, vars: {X: 2}}'') decoded CreateCommand_config
     = Returns (\<lparr>Targets = Some ([''build'' \<mapsto> [''echo a'']] ++ [''build'' \<mapsto> [''echo $X'']]),
                 Vars = Some ([''X'' \<mapsto> ''1''] ++ [''X'' \<mapsto> ''2''])\<rparr>,
                CreateCommand_config
                  \<lparr>argReplacements := Map.empty ++ ([''X'' \<mapsto> ''1''] ++ [''X'' \<mapsto> ''2''])\<rparr>)"
  by (simp add: getTargets_def getTargetsFile_def two_files_def decoded_def CreateCommand_config_def
        emptyTargets_def assign_range_def bind_res_def)

lemma validated_build_X3:
  "ArgsValidator (Suc 0) [''X'', ''CMD'', ''BIN''] (Inr ''/usr/bin/torto'')
      (two_files ''{targets: {build: [echo a]}, vars: {X: 1}}''
         ''{targets: {build: [echo $X]}, vars: {X: 2}}'')
      decoded CreateCommand_config [''build'', ''X=3'']
   = Some (Returns (CreateCommand_config
       \<lparr>argReplacements :=
          [''X'' \<mapsto> ''3'', ''CMD'' \<mapsto> [], ''BIN'' \<mapsto> ''/usr/bin/torto''] ++ [''X'' \<mapsto> ''2''],
        target := ''build'', thisTarget := [''echo $X'']\<rparr>))"
proof -
  have "withResolvedArgs (Suc 0) [''X'', ''CMD'', ''BIN'']
      [''X'' \<mapsto> ''3'', ''CMD'' \<mapsto> [], ''BIN'' \<mapsto> ''/usr/bin/torto''] ''build'' = Some ''build''"
    by simp
  then show ?thesis
    using ArgsValidator_eq [OF parse_build_X3 _ load_X1_X2] by (simp add: contents_def)
qed

theorem file_variables_override_witness:
  "(case ArgsValidator (Suc 0) [''X'', ''CMD'', ''BIN''] (Inr ''/usr/bin/torto'')
      (two_files ''{targets: {build: [echo a]}, vars: {X: 1}}''
         ''{targets: {build: [echo $X]}, vars: {X: 2}}'')
      decoded CreateCommand_config [''build'', ''X=3'']
    of Some (Returns c') \<Rightarrow> (argReplacements c' ''X'', argReplacements c' ''CMD'')
     | _ \<Rightarrow> (None, None)) = (Some ''2'', Some [])"
  using file_variables_override [OF validated_build_X3 parse_build_X3 load_X1_X2, of "''X''"]
    file_variables_override [OF validated_build_X3 parse_build_X3 load_X1_X2, of "''CMD''"]
  by (simp add: validated_build_X3 contents_def)

text \<open>
  C1, as it is stated, fails. The global file has \<open>X = 1\<close>, the project file \<open>X = 2\<close> and
  the caller gives \<open>X=3\<close>: after validation the variable map binds \<open>X\<close> to \<open>2\<close>, the
  value of the files, and \<open>$X\<close> resolves to \<open>2\<close>; the command of the target \<open>build\<close> is
  shown as \<open>echo 2\<close>.
\<close>

theorem caller_value_overridden:
  "(case ArgsValidator (Suc 0) [''X'', ''CMD'', ''BIN''] (Inr ''/usr/bin/torto'')
      (two_files ''{targets: {build: [echo a]}, vars: {X: 1}}''
         ''{targets: {build: [echo $X]}, vars: {X: 2}}'')
      decoded CreateCommand_config [''build'', ''X=3'']
    of Some (Returns c') \<Rightarrow>
         argReplacements c' ''X'' = Some ''2''
         \<and> withResolvedArgs 2 [''X'', ''CMD'', ''BIN''] (argReplacements c') ''$X'' = Some ''2''
         \<and> map_option (\<lambda>(r, tr, w). tr)
             (Execute 2 [''X'', ''CMD'', ''BIN''] ''linux'' failing_false (c'\<lparr>debug := True\<rparr>) 0)
           = Some [Dumped, Shown ''echo 2'']
     | _ \<Rightarrow> False)"
  by (simp add: validated_build_X3 numeral_2_eq_2 ReplaceAll.simps Execute_def)

section \<open>Execution\<close>

text \<open>When every command resolves, the loop returns.\<close>

lemma Execute_range_returns:
  "map (withResolvedArgs n ks (argReplacements c)) vs = map Some cs \<Longrightarrow>
   \<exists>r tr w'. Execute_range n ks run executor c vs w = Some (r, tr, w')"
proof (induction vs arbitrary: cs w)
  case Nil
  show ?case by simp
next
  case (Cons v vs)
  then obtain command cs' where cs: "cs = command # cs'"
      "withResolvedArgs n ks (argReplacements c) v = Some command"
      "map (withResolvedArgs n ks (argReplacements c)) vs = map Some cs'"
    by (cases cs) auto
  obtain w1 stderr err where run: "run w executor [''-c'', command] = (w1, stderr, err)"
    by (cases "run w executor [''-c'', command]") auto
  from Cons.IH [OF cs(3)] obtain r tr w' r1 tr1 w1'
    where "Execute_range n ks run executor c vs w = Some (r, tr, w')"
      and "Execute_range n ks run executor c vs w1 = Some (r1, tr1, w1')"
    by blast
  then show ?case
    using cs(2) run by (cases err) (auto simp: Let_def)
qed

lemma Execute_range_policy:
  "Execute_range n ks run executor c vs w = Some (r, tr, w') \<Longrightarrow>
   map (withResolvedArgs n ks (argReplacements c)) vs = map Some cs \<Longrightarrow>
   prefix (reached tr) cs
   \<and> (if debug c then ran tr = [] else map fst (ran tr) = reached tr)
   \<and> (force c \<longrightarrow> reached tr = cs)
   \<and> (\<not> force c \<longrightarrow> stops_at_first_failure (ran tr) r \<and> (r = None \<longrightarrow> reached tr = cs))"
proof (induction vs arbitrary: cs w r tr w')
  case Nil
  then show ?case by auto
next
  case (Cons v vs)
  then obtain command cs' where cs: "cs = command # cs'"
      "withResolvedArgs n ks (argReplacements c) v = Some command"
      "map (withResolvedArgs n ks (argReplacements c)) vs = map Some cs'"
    by (cases cs) auto
  obtain w1 stderr err where run: "run w executor [''-c'', command] = (w1, stderr, err)"
    by (cases "run w executor [''-c'', command]") auto
  show ?case
  proof (cases "debug c")
    case True
    with Cons.prems(1) cs(2) obtain tr0 where
      "Execute_range n ks run executor c vs w = Some (r, tr0, w')" "tr = Shown command # tr0"
      by auto
    then show ?thesis
      using Cons.IH [OF _ cs(3)] True cs(1) by fastforce
  next
    case False
    show ?thesis
    proof (cases err)
      case None
      with Cons.prems(1) cs(2) run False obtain tr0 where
        "Execute_range n ks run executor c vs w1 = Some (r, tr0, w')"
        "tr = Ran command stderr None # tr0"
        by auto
      then show ?thesis
        using Cons.IH [OF _ cs(3)] False cs(1) by fastforce
    next
      case (Some e)
      show ?thesis
      proof (cases "force c")
        case True
        with Cons.prems(1) cs(2) run False Some obtain tr0 p where
          "Execute_range n ks run executor c vs w1 = Some (r, tr0, w')"
          "tr = Ran command stderr (Some e) # Printed p # PrintedErr e # tr0"
          by (auto simp: Let_def)
        then show ?thesis
          using Cons.IH [OF _ cs(3)] False True cs(1) by fastforce
      next
        case nf: False
        with Cons.prems(1) cs(2) run False Some obtain p where
          "r = Some e" "tr = [Ran command stderr (Some e), Printed p]"
          by (auto simp: Let_def)
        then show ?thesis
          using False nf cs(1) by simp
      qed
    qed
  qed
qed

lemma Execute_range_error:
  "Execute_range n ks run executor c vs w = Some (r, tr, w') \<Longrightarrow>
   (debug c \<or> force c \<longrightarrow> r = None)
   \<and> (\<forall>err. r = Some err \<longrightarrow> (\<exists>command stderr. Ran command stderr (Some err) \<in> set tr))"
proof (induction vs arbitrary: w r tr w')
  case Nil
  then show ?case by auto
next
  case (Cons v vs)
  then obtain command where cmd: "withResolvedArgs n ks (argReplacements c) v = Some command"
    by (auto split: option.splits)
  obtain w1 stderr err where run: "run w executor [''-c'', command] = (w1, stderr, err)"
    by (cases "run w executor [''-c'', command]") auto
  show ?case
  proof (cases "debug c")
    case True
    with Cons.prems cmd obtain tr0 where
      "Execute_range n ks run executor c vs w = Some (r, tr0, w')" "tr = Shown command # tr0"
      by auto
    then show ?thesis
      using Cons.IH True by fastforce
  next
    case False
    show ?thesis
    proof (cases err)
      case None
      with Cons.prems cmd run False obtain tr0 where
        "Execute_range n ks run executor c vs w1 = Some (r, tr0, w')"
        "tr = Ran command stderr None # tr0"
        by auto
      then show ?thesis
        using Cons.IH False by fastforce
    next
      case (Some e)
      show ?thesis
      proof (cases "force c")
        case True
        with Cons.prems cmd run False Some obtain tr0 p where
          "Execute_range n ks run executor c vs w1 = Some (r, tr0, w')"
          "tr = Ran command stderr (Some e) # Printed p # PrintedErr e # tr0"
          by (auto simp: Let_def)
        then show ?thesis
          using Cons.IH True by fastforce
      next
        case nf: False
        with Cons.prems cmd run False Some obtain p where
          "r = Some e" "tr = [Ran command stderr (Some e), Printed p]"
          by (auto simp: Let_def)
        then show ?thesis
          using False nf by auto
      qed
    qed
  qed
qed

text \<open>
  C2. Take a run in which every command of the target resolves. The commands that the
  loop gets to are a prefix of the resolved commands, in order; outside debug mode they
  are the commands that are run, in debug mode none is run. With \<open>force\<close> the loop gets to
  every command. Without \<open>force\<close> a command that fails is the last that is run and its
  error is the result; and when the result is \<open>nil\<close> the loop got to every command.
\<close>

theorem Execute_force_policy:
  assumes "map (withResolvedArgs n ks (argReplacements c)) (thisTarget c) = map Some cs"
  shows "\<exists>r tr w'. Execute n ks GOOS run c w = Some (r, tr, w')
           \<and> prefix (reached tr) cs
           \<and> (if debug c then ran tr = [] else map fst (ran tr) = reached tr)
           \<and> (force c \<longrightarrow> reached tr = cs)
           \<and> (\<not> force c \<longrightarrow> stops_at_first_failure (ran tr) r \<and> (r = None \<longrightarrow> reached tr = cs))"
proof -
  let ?executor = "if GOOS = ''windows'' then ''powershell'' else ''sh''"
  obtain r tr w' where e: "Execute_range n ks run ?executor c (thisTarget c) w = Some (r, tr, w')"
    using Execute_range_returns [of n ks c "thisTarget c" cs run ?executor w] assms by blast
  define tr' where "tr' = (if debug c then [Dumped] else []) @ tr"
  have eq: "Execute n ks GOOS run c w = Some (r, tr', w')"
    using e by (simp add: Execute_def tr'_def)
  have "reached tr' = reached tr" "ran tr' = ran tr"
    by (simp_all add: tr'_def)
  then have "prefix (reached tr') cs
           \<and> (if debug c then ran tr' = [] else map fst (ran tr') = reached tr')
           \<and> (force c \<longrightarrow> reached tr' = cs)
           \<and> (\<not> force c \<longrightarrow> stops_at_first_failure (ran tr') r \<and> (r = None \<longrightarrow> reached tr' = cs))"
    using Execute_range_policy [OF e assms] by simp
  with eq show ?thesis
    by blast
qed

theorem Execute_force_policy_witness:
  "Execute (Suc 0) [] ''linux'' failing_false two_commands 0
     = Some (Some (foreign ''exit status 1''),
             [Ran ''false'' [] (Some (foreign ''exit status 1'')),
              Printed (''check: error executing '' @ [CHR 0x27] @ ''false'' @ [CHR 0x27] @ '': ''
                         @ [CHR 0x0A])],
             1)
   \<and> map_option (\<lambda>(r, tr, w). (r, ran tr))
        (Execute (Suc 0) [] ''linux'' failing_false (two_commands\<lparr>force := True\<rparr>) 0)
     = Some (None, [(''false'', Some (foreign ''exit status 1'')), (''echo ok'', None)])"
  using Execute_force_policy
      [of "Suc 0" "[]" two_commands "[''false'', ''echo ok'']" "''linux''" failing_false 0]
    Execute_force_policy
      [of "Suc 0" "[]" "two_commands\<lparr>force := True\<rparr>" "[''false'', ''echo ok'']" "''linux''"
          failing_false 0]
  by (simp add: Execute_def two_commands_def CreateCommand_config_def failing_false_def)

text \<open>
  C9. A run of \<open>Execute\<close> that returns, returns \<open>nil\<close> when \<open>debug\<close> or \<open>force\<close> is set;
  an error that it returns is the error of a command that was run, and then neither flag
  is set. The run returns when every command of the target resolves.
\<close>

theorem Execute_error_only_unforced:
  "(\<forall>r tr w'. Execute n ks GOOS run c w = Some (r, tr, w') \<longrightarrow>
      (debug c \<or> force c \<longrightarrow> r = None)
      \<and> (\<forall>err. r = Some err \<longrightarrow>
            \<not> debug c \<and> \<not> force c \<and> (\<exists>command stderr. Ran command stderr (Some err) \<in> set tr)))
   \<and> (map (withResolvedArgs n ks (argReplacements c)) (thisTarget c) = map Some cs \<longrightarrow>
        (\<exists>r tr w'. Execute n ks GOOS run c w = Some (r, tr, w')))"
proof (intro conjI allI impI)
  fix r tr w'
  assume a: "Execute n ks GOOS run c w = Some (r, tr, w')"
  let ?executor = "if GOOS = ''windows'' then ''powershell'' else ''sh''"
  from a obtain tr0 where e: "Execute_range n ks run ?executor c (thisTarget c) w = Some (r, tr0, w')"
    and tr: "tr = (if debug c then [Dumped] else []) @ tr0"
    by (auto simp: Execute_def)
  note p = Execute_range_error [OF e]
  { assume "debug c \<or> force c" then show "r = None" using p by blast }
  { fix err assume r: "r = Some err"
    show "\<not> debug c" using p r by auto
    show "\<not> force c" using p r by auto
    show "\<exists>command stderr. Ran command stderr (Some err) \<in> set tr" using p r tr by auto }
next
  assume "map (withResolvedArgs n ks (argReplacements c)) (thisTarget c) = map Some cs"
  then show "\<exists>r tr w'. Execute n ks GOOS run c w = Some (r, tr, w')"
    using Execute_range_returns
      [of n ks c "thisTarget c" cs run "if GOOS = ''windows'' then ''powershell'' else ''sh''" w]
    by (auto simp: Execute_def)
qed

theorem Execute_error_only_unforced_witness:
  "map_option fst (Execute (Suc 0) [] ''linux'' failing_false (two_commands\<lparr>force := True\<rparr>) 0)
     = Some None
   \<and> map_option fst (Execute (Suc 0) [] ''linux'' failing_false (two_commands\<lparr>debug := True\<rparr>) 0)
     = Some None
   \<and> map_option fst (Execute (Suc 0) [] ''linux'' failing_false two_commands 0)
     = Some (Some (foreign ''exit status 1''))"
  using Execute_error_only_unforced
      [of "Suc 0" "[]" "''linux''" failing_false "two_commands\<lparr>force := True\<rparr>" 0
          "[''false'', ''echo ok'']"]
    Execute_error_only_unforced
      [of "Suc 0" "[]" "''linux''" failing_false "two_commands\<lparr>debug := True\<rparr>" 0
          "[''false'', ''echo ok'']"]
    Execute_error_only_unforced
      [of "Suc 0" "[]" "''linux''" failing_false two_commands 0 "[''false'', ''echo ok'']"]
  by (simp add: Execute_def two_commands_def CreateCommand_config_def failing_false_def)

end
